theory Spec2Isabelle
  imports Complex_Main
begin

section \<open>Gamma-ray shielding study: dose estimation and sweep orchestration\<close>

text \<open>
  The Python sources compute with binary floating-point numbers. Here every Python
  \<open>float\<close> is a HOL \<open>real\<close>: arithmetic is exact, there is no rounding, overflow,
  infinity or NaN. All statements below are about this exact-arithmetic reading of the
  code.
\<close>

subsection \<open>Python exceptions\<close>

text \<open>
  \<open>KeyboardInterrupt\<close> derives from \<open>BaseException\<close> only; an \<open>except Exception\<close>
  clause does not catch it. The other two stand for the subclasses of \<open>Exception\<close>.
\<close>

datatype exn = ZeroDivisionError | OtherException | KeyboardInterrupt

definition is_Exception :: "exn \<Rightarrow> bool" where
  "is_Exception e = (e \<noteq> KeyboardInterrupt)"

subsection \<open>config.py\<close>

definition ft_to_cm :: real where
  "ft_to_cm = 30.48"

definition wall_thickness :: real where
  "wall_thickness = 2 * ft_to_cm"

definition source_to_wall_distance :: real where
  "source_to_wall_distance = 6 * ft_to_cm"

definition detector_diameter :: real where
  "detector_diameter = 30.0"

subsection \<open>dose.py: flux-to-dose conversion factor\<close>

definition energies :: "real list" where
  "energies = [0.01, 0.03, 0.05, 0.07, 0.1, 0.15, 0.2, 0.25, 0.3, 0.35, 0.4, 0.45,
               0.5, 0.55, 0.6, 0.65, 0.7, 0.8, 1.0, 1.4, 1.8, 2.2, 2.6, 2.8, 3.25,
               3.75, 4.25, 4.75, 5.0, 5.25, 5.75, 6.25, 6.75, 7.5, 9.0, 11.0, 13.0, 15.0]"

definition factors :: "real list" where
  "factors = [3.96 / 10^6, 5.82 / 10^7, 2.90 / 10^7, 2.58 / 10^7, 2.83 / 10^7, 3.79 / 10^7,
              5.01 / 10^7, 6.31 / 10^7, 7.59 / 10^7, 8.78 / 10^7, 9.85 / 10^7, 1.08 / 10^6,
              1.17 / 10^6, 1.27 / 10^6, 1.36 / 10^6, 1.44 / 10^6, 1.52 / 10^6, 1.68 / 10^6,
              1.98 / 10^6, 2.51 / 10^6, 2.99 / 10^6, 3.42 / 10^6, 3.82 / 10^6, 4.01 / 10^6,
              4.41 / 10^6, 4.83 / 10^6, 5.23 / 10^6, 5.60 / 10^6, 5.80 / 10^6, 6.01 / 10^6,
              6.37 / 10^6, 6.74 / 10^6, 7.11 / 10^6, 7.66 / 10^6, 8.77 / 10^6, 1.03 / 10^5,
              1.18 / 10^5, 1.33 / 10^5]"

text \<open>The value returned from inside the loop at index \<open>i\<close> (lines 34 and 35).\<close>

definition interpolate :: "nat \<Rightarrow> real \<Rightarrow> real" where
  "interpolate i energy =
     (let fraction = (energy - energies ! i) / (energies ! (i + 1) - energies ! i)
      in factors ! i + fraction * (factors ! (i + 1) - factors ! i))"

text \<open>
  The \<open>for i in range(len(energies)-1)\<close> loop over the list of indices still to visit:
  \<open>Some\<close> is the \<open>return\<close> inside the loop, \<open>None\<close> is falling out of it.
\<close>

fun interp_loop :: "real \<Rightarrow> nat list \<Rightarrow> real option" where
  "interp_loop energy [] = None"
| "interp_loop energy (i # rest) =
     (if energies ! i \<le> energy \<and> energy \<le> energies ! (i + 1)
      then Some (interpolate i energy)
      else interp_loop energy rest)"

text \<open>\<open>np.argmin\<close>: the first index of a smallest element.\<close>

fun argmin_from :: "real list \<Rightarrow> nat \<Rightarrow> nat \<Rightarrow> real \<Rightarrow> nat" where
  "argmin_from [] i best_i best = best_i"
| "argmin_from (x # xs) i best_i best =
     (if x < best then argmin_from xs (i + 1) i x else argmin_from xs (i + 1) best_i best)"

definition argmin :: "real list \<Rightarrow> nat" where
  "argmin xs = (case xs of [] \<Rightarrow> 0 | x # rest \<Rightarrow> argmin_from rest 1 0 x)"

text \<open>Which \<open>return\<close> statement of \<open>get_flux_to_dose_factor\<close> produced the value.\<close>

datatype return_path = Clamp_low | Clamp_high | Interpolated | Nearest_neighbour

definition factor_with_path :: "real \<Rightarrow> return_path \<times> real" where
  "factor_with_path energy =
     (if energy \<le> energies ! 0 then (Clamp_low, factors ! 0)
      else if energy \<ge> last energies then (Clamp_high, last factors)
      else (case interp_loop energy [0 ..< length energies - 1] of
              Some f \<Rightarrow> (Interpolated, f)
            | None \<Rightarrow> (Nearest_neighbour,
                        factors ! argmin (map (\<lambda>x. \<bar>x - energy\<bar>) energies))))"

definition get_flux_to_dose_factor :: "real \<Rightarrow> real" where
  "get_flux_to_dose_factor energy = snd (factor_with_path energy)"

definition estimate_dose_from_flux :: "real \<Rightarrow> real \<Rightarrow> real" where
  "estimate_dose_from_flux energy total_flux = total_flux * get_flux_to_dose_factor energy"

subsection \<open>geometry.py and dose.py: the analytic dose model\<close>

text \<open>
  \<open>calculate_solid_angle\<close> of geometry.py; the division raises when the distance is 0.
\<close>

definition calculate_solid_angle :: "real \<Rightarrow> real \<Rightarrow> exn + real" where
  "calculate_solid_angle distance channel_radius =
     (if distance = 0 then Inl ZeroDivisionError
      else (let theta = arctan (channel_radius / distance)
            in Inr (2 * pi * (1 - cos theta))))"

text \<open>\<open>np.radians\<close>.\<close>

definition radians :: "real \<Rightarrow> real" where
  "radians deg = deg * pi / 180"

text \<open>The air attenuation coefficient of lines 77 to 84 of dose.py.\<close>

definition atten_coeff :: "real \<Rightarrow> real" where
  "atten_coeff energy =
     (if energy \<le> 0.1 then 0.01
      else if energy \<le> 0.5 then 0.005
      else if energy \<le> 1.0 then 0.003
      else 0.002)"

definition source_strength :: real where
  "source_strength = 10^12"

text \<open>
  Lines 74 to 102 of \<open>estimate_physics_based_dose\<close>: the value assigned to
  \<open>estimated_flux\<close> before the floor. \<open>1 / (path_length**2)\<close> raises
  \<open>ZeroDivisionError\<close> when the square is 0.
\<close>

definition flux_product :: "real \<Rightarrow> real \<Rightarrow> real \<Rightarrow> real \<Rightarrow> exn + real" where
  "flux_product energy channel_diameter detector_angle path_length =
     (case calculate_solid_angle source_to_wall_distance (channel_diameter / 2) of
        Inl err \<Rightarrow> Inl err
      | Inr solid_angle \<Rightarrow>
          (let attenuation = exp (- atten_coeff energy * path_length)
           in if path_length^2 = 0 then Inl ZeroDivisionError
              else (let spreading = 1 / path_length^2;
                        angle_effect = cos (radians (min detector_angle 80));
                        detector_area = pi * (detector_diameter / 2)^2
                    in Inr (source_strength * solid_angle * attenuation * spreading
                            * angle_effect * detector_area))))"

text \<open>Line 105: \<open>estimated_flux = max(estimated_flux, 1e-5)\<close>.\<close>

definition estimated_flux :: "real \<Rightarrow> real \<Rightarrow> real \<Rightarrow> real \<Rightarrow> exn + real" where
  "estimated_flux energy channel_diameter detector_angle path_length =
     (case flux_product energy channel_diameter detector_angle path_length of
        Inl err \<Rightarrow> Inl err
      | Inr product \<Rightarrow> Inr (max product (1 / 10^5)))"

text \<open>
  Lines 107 to 119. The floor \<open>min_dose\<close> divides by \<open>1 + detector_angle/10\<close>, which
  raises \<open>ZeroDivisionError\<close> at an angle of -10 degrees.
\<close>

definition estimate_physics_based_dose ::
  "real \<Rightarrow> real \<Rightarrow> real \<Rightarrow> real \<Rightarrow> real \<Rightarrow> exn + real" where
  "estimate_physics_based_dose energy channel_diameter detector_distance detector_angle path_length =
     (case estimated_flux energy channel_diameter detector_angle path_length of
        Inl err \<Rightarrow> Inl err
      | Inr flux \<Rightarrow>
          (let dose_factor = get_flux_to_dose_factor energy;
               dose_rem_per_hr = flux * dose_factor;
               energy_scaling = energy^2;
               dose_rem_per_hr = dose_rem_per_hr * energy_scaling
           in if 1 + detector_angle / 10 = 0 then Inl ZeroDivisionError
              else (let min_dose = 1 / 10^7 * energy * (channel_diameter / 0.05)
                                   / (1 + detector_angle / 10)
                    in Inr (max dose_rem_per_hr min_dose))))"

text \<open>The solid angle that \<open>calculate_solid_angle\<close> returns at the fixed source distance.\<close>

definition solid_angle_value :: "real \<Rightarrow> real" where
  "solid_angle_value channel_diameter =
     2 * pi * (1 - cos (arctan (channel_diameter / 2 / source_to_wall_distance)))"

subsection \<open>geometry.py: detector position\<close>

text \<open>
  The detector centre that \<open>create_geometry\<close> returns (lines 67 to 69 of geometry.py).
\<close>

definition detector_x :: "real \<Rightarrow> real \<Rightarrow> real" where
  "detector_x detector_distance detector_angle =
     source_to_wall_distance + wall_thickness
     + detector_distance * cos (radians detector_angle)"

definition detector_y :: "real \<Rightarrow> real \<Rightarrow> real" where
  "detector_y detector_distance detector_angle =
     detector_distance * sin (radians detector_angle)"

subsection \<open>simulation.py: one configuration\<close>

text \<open>
  What the external calls of one run of \<open>run_simulation\<close> do is given from outside:
  each either raises or returns. \<open>create_materials\<close>, \<open>create_geometry\<close>,
  \<open>create_source\<close>, \<open>create_tallies\<close> and \<open>os.makedirs\<close> are called before the
  \<open>try\<close>; exporting the model and moving its XML files, \<open>os.chdir(run_dir)\<close>,
  \<open>openmc.run()\<close>, reading the statepoint (the mesh values reshaped to 100 by 100 and the
  detector spectrum) and the three plotting calls are inside it. \<open>print\<close>,
  \<open>openmc.Settings()\<close>, \<open>os.getcwd()\<close>, \<open>float\<close> and \<open>os.chdir(original_dir)\<close> are
  taken to return.
\<close>

record collaborators =
  create_materials_raises :: "exn option"
  create_geometry_raises :: "exn option"
  create_source_raises :: "exn option"
  create_tallies_raises :: "exn option"
  makedirs_raises :: "exn option"
  export_raises :: "exn option"
  chdir_raises :: "exn option"
  openmc_run_raises :: "exn option"
  statepoint_read :: "exn + (real list list \<times> real list)"
  visualisation_raises :: "exn option"

text \<open>
  The state of the process that a run changes: its working directory, and a log of what
  the run did (engine invocations, analytic estimates, plotting).
\<close>

datatype event = Engine_run | Fallback_estimate | Visualisation

record proc =
  cwd :: string
  events :: "event list"

definition log_event :: "event \<Rightarrow> proc \<Rightarrow> proc" where
  "log_event ev p = p\<lparr>events := events p @ [ev]\<rparr>"

text \<open>A result is a Python dict: a finite map from field names to JSON values.\<close>

datatype jvalue = Num real | Num_list "real list" | Num_grid "real list list"

type_synonym result = "string \<rightharpoonup> jvalue"

definition full_result ::
  "real \<Rightarrow> real \<Rightarrow> real \<Rightarrow> real \<Rightarrow> real \<Rightarrow> real \<Rightarrow> real list \<Rightarrow> real list list \<Rightarrow> result" where
  "full_result energy channel_diameter detector_distance detector_angle total_flux
     dose_rem_per_hr spectrum mesh_result =
     [''energy'' \<mapsto> Num energy,
      ''channel_diameter'' \<mapsto> Num channel_diameter,
      ''detector_distance'' \<mapsto> Num detector_distance,
      ''detector_angle'' \<mapsto> Num detector_angle,
      ''detector_x'' \<mapsto> Num (detector_x detector_distance detector_angle),
      ''detector_y'' \<mapsto> Num (detector_y detector_distance detector_angle),
      ''total_flux'' \<mapsto> Num total_flux,
      ''dose_rem_per_hr'' \<mapsto> Num dose_rem_per_hr,
      ''spectrum'' \<mapsto> Num_list spectrum,
      ''mesh_result'' \<mapsto> Num_grid mesh_result]"

definition minimal_result :: "real \<Rightarrow> real \<Rightarrow> real \<Rightarrow> real \<Rightarrow> real \<Rightarrow> result" where
  "minimal_result energy channel_diameter detector_distance detector_angle estimated_dose =
     [''energy'' \<mapsto> Num energy,
      ''channel_diameter'' \<mapsto> Num channel_diameter,
      ''detector_distance'' \<mapsto> Num detector_distance,
      ''detector_angle'' \<mapsto> Num detector_angle,
      ''detector_x'' \<mapsto> Num (detector_x detector_distance detector_angle),
      ''detector_y'' \<mapsto> Num (detector_y detector_distance detector_angle),
      ''dose_rem_per_hr'' \<mapsto> Num estimated_dose]"

text \<open>\<open>path_length\<close> of lines 113 and 149.\<close>

definition fallback_path_length :: "real \<Rightarrow> real" where
  "fallback_path_length detector_distance =
     source_to_wall_distance + wall_thickness + detector_distance"

text \<open>
  \<open>run_dir\<close> is built from the f-string \<open>run_id\<close>; how Python prints the four numbers is
  not modelled, so the string \<open>run_id\<close> is an argument. \<open>os.chdir(run_dir)\<close> with this
  relative path enters a directory below the current one.
\<close>

definition run_dir :: "string \<Rightarrow> string" where
  "run_dir run_id = ''results/run_'' @ run_id"

text \<open>
  Lines 118 to 139: the result dict, then the plotting calls, then \<open>return results\<close>.
\<close>

definition save_and_plot ::
  "collaborators \<Rightarrow> real \<Rightarrow> real \<Rightarrow> real \<Rightarrow> real \<Rightarrow> real \<Rightarrow> real \<Rightarrow> real list \<Rightarrow> real list list
     \<Rightarrow> proc \<Rightarrow> proc \<times> (exn + result)" where
  "save_and_plot w energy channel_diameter detector_distance detector_angle total_flux
     dose_rem_per_hr spectrum mesh_result p =
     (let results = full_result energy channel_diameter detector_distance detector_angle
                      total_flux dose_rem_per_hr spectrum mesh_result;
          p = log_event Visualisation p
      in case visualisation_raises w of
           Some err \<Rightarrow> (p, Inl err)
         | None \<Rightarrow> (p, Inr results))"

text \<open>
  The body of the \<open>try\<close> (lines 68 to 139). \<open>Inl\<close> is an exception leaving the body, with
  the process state at that moment.
\<close>

definition try_body ::
  "string \<Rightarrow> collaborators \<Rightarrow> real \<Rightarrow> real \<Rightarrow> real \<Rightarrow> real \<Rightarrow> string \<Rightarrow> proc
     \<Rightarrow> proc \<times> (exn + result)" where
  "try_body run_id w energy channel_diameter detector_distance detector_angle original_dir p =
     (case export_raises w of
        Some err \<Rightarrow> (p, Inl err)
      | None \<Rightarrow>
     (case chdir_raises w of
        Some err \<Rightarrow> (p, Inl err)
      | None \<Rightarrow>
     (let p = p\<lparr>cwd := cwd p @ ''/'' @ run_dir run_id\<rparr>;
          p = log_event Engine_run p
      in case openmc_run_raises w of
        Some err \<Rightarrow> (p, Inl err)
      | None \<Rightarrow>
     (let p = p\<lparr>cwd := original_dir\<rparr>
      in case statepoint_read w of
        Inl err \<Rightarrow> (p, Inl err)
      | Inr (mesh_result, spectrum) \<Rightarrow>
     (let total_flux = sum_list spectrum;
          dose_factor = get_flux_to_dose_factor energy;
          dose_rem_per_hr = total_flux * dose_factor
      in if total_flux < 1 / 10^6 \<or> dose_rem_per_hr < 1 / 10^10
         then (let path_length = fallback_path_length detector_distance;
                   p = log_event Fallback_estimate p
               in case estimate_physics_based_dose energy channel_diameter detector_distance
                         detector_angle path_length of
                    Inl err \<Rightarrow> (p, Inl err)
                  | Inr dose_rem_per_hr \<Rightarrow>
                      save_and_plot w energy channel_diameter detector_distance detector_angle
                        total_flux dose_rem_per_hr spectrum mesh_result p)
         else save_and_plot w energy channel_diameter detector_distance detector_angle
                total_flux dose_rem_per_hr spectrum mesh_result p)))))"

text \<open>The \<open>except Exception\<close> handler (lines 141 to 163).\<close>

definition except_handler ::
  "real \<Rightarrow> real \<Rightarrow> real \<Rightarrow> real \<Rightarrow> string \<Rightarrow> proc \<Rightarrow> proc \<times> (exn + result)" where
  "except_handler energy channel_diameter detector_distance detector_angle original_dir p =
     (let p = p\<lparr>cwd := original_dir\<rparr>;
          path_length = fallback_path_length detector_distance;
          p = log_event Fallback_estimate p
      in case estimate_physics_based_dose energy channel_diameter detector_distance
                detector_angle path_length of
           Inl err \<Rightarrow> (p, Inl err)
         | Inr estimated_dose \<Rightarrow>
             (p, Inr (minimal_result energy channel_diameter detector_distance detector_angle
                        estimated_dose)))"

text \<open>
  \<open>run_simulation\<close>: the calls before the \<open>try\<close>, the \<open>try\<close>, and the handler for the
  subclasses of \<open>Exception\<close>. \<open>Inl\<close> is an exception that leaves \<open>run_simulation\<close>.
\<close>

definition run_simulation ::
  "string \<Rightarrow> collaborators \<Rightarrow> real \<Rightarrow> real \<Rightarrow> real \<Rightarrow> real \<Rightarrow> proc \<Rightarrow> proc \<times> (exn + result)" where
  "run_simulation run_id w energy channel_diameter detector_distance detector_angle p =
     (case create_materials_raises w of Some err \<Rightarrow> (p, Inl err) | None \<Rightarrow>
     (case create_geometry_raises w of Some err \<Rightarrow> (p, Inl err) | None \<Rightarrow>
     (case create_source_raises w of Some err \<Rightarrow> (p, Inl err) | None \<Rightarrow>
     (case create_tallies_raises w of Some err \<Rightarrow> (p, Inl err) | None \<Rightarrow>
     (case makedirs_raises w of Some err \<Rightarrow> (p, Inl err) | None \<Rightarrow>
     (let original_dir = cwd p
      in case try_body run_id w energy channel_diameter detector_distance detector_angle
                original_dir p of
           (p, Inr results) \<Rightarrow> (p, Inr results)
         | (p, Inl err) \<Rightarrow>
             if is_Exception err
             then except_handler energy channel_diameter detector_distance detector_angle
                    original_dir p
             else (p, Inl err)))))))"

text \<open>A run in which every external call returns, with the given tallies.\<close>

definition quiet :: "real list list \<Rightarrow> real list \<Rightarrow> collaborators" where
  "quiet mesh_result spectrum =
     \<lparr>create_materials_raises = None, create_geometry_raises = None,
      create_source_raises = None, create_tallies_raises = None, makedirs_raises = None,
      export_raises = None, chdir_raises = None, openmc_run_raises = None,
      statepoint_read = Inr (mesh_result, spectrum), visualisation_raises = None\<rparr>"

subsection \<open>config.py: the parameter lists\<close>

text \<open>The lists as they are after the \<open>test_mode\<close> block, which \<open>config.py\<close> switches on.\<close>

definition gamma_energies :: "real list" where
  "gamma_energies = [0.1, 1.0, 5.0]"

definition channel_diameters :: "real list" where
  "channel_diameters = [0.05, 0.5]"

definition detector_distances :: "real list" where
  "detector_distances = [30, 100]"

definition detector_angles :: "real list" where
  "detector_angles = [0, 15, 45]"

subsection \<open>setup.py: the sweep\<close>

type_synonym config = "real \<times> real \<times> real \<times> real"

type_synonym store = "string \<rightharpoonup> result"

text \<open>The four nested \<open>for\<close> loops of lines 67 to 70, energy outermost.\<close>

definition configurations :: "real list \<Rightarrow> real list \<Rightarrow> real list \<Rightarrow> real list \<Rightarrow> config list" where
  "configurations es cds dds das =
     concat (map (\<lambda>energy.
       concat (map (\<lambda>channel_diameter.
         concat (map (\<lambda>detector_distance.
           map (\<lambda>detector_angle.
             (energy, channel_diameter, detector_distance, detector_angle)) das) dds)) cds)) es)"

text \<open>
  \<open>results/intermediate_results.json\<close> in the directory where the sweep starts: absent,
  present but not loadable (\<open>json.load\<close> raises, which lines 50 and 51 catch), or holding
  a store. Writing a store and loading it again gives the same store.
\<close>

datatype results_file = Missing | Unreadable | Contents store

definition load_results :: "results_file \<Rightarrow> store" where
  "load_results f = (case f of Missing \<Rightarrow> Map.empty | Unreadable \<Rightarrow> Map.empty | Contents s \<Rightarrow> s)"

text \<open>Line 75: \<open>key in all_results and 'dose_rem_per_hr' in all_results[key]\<close>.\<close>

definition already_completed :: "store \<Rightarrow> string \<Rightarrow> bool" where
  "already_completed s key =
     (case s key of None \<Rightarrow> False | Some result \<Rightarrow> result ''dose_rem_per_hr'' \<noteq> None)"

text \<open>
  The variables of \<open>main\<close> during the sweep, the tracked file and the process state.
  \<open>simulated\<close> lists the configurations for which \<open>run_simulation\<close> was called;
  \<open>terminated\<close> is set when the interrupt handler ends the process.
\<close>

record sweep_state =
  all_results :: store
  intermediate_file :: results_file
  completed_simulations :: nat
  failed_simulations :: nat
  simulated :: "config list"
  process :: proc
  terminated :: bool

text \<open>
  \<open>open('results/intermediate_results.json', 'w')\<close> followed by \<open>json.dump\<close>: the relative
  path is resolved against the working directory, so the tracked file is written when the
  process is in the directory where it started. The two calls are taken not to raise.
\<close>

definition write_intermediate :: "string \<Rightarrow> sweep_state \<Rightarrow> sweep_state" where
  "write_intermediate start_dir st =
     (if cwd (process st) = start_dir
      then st\<lparr>intermediate_file := Contents (all_results st)\<rparr>
      else st)"

text \<open>
  One pass through the body of the innermost loop (lines 71 to 120). The key is the
  f-string of line 72, the same text as \<open>run_id\<close> in \<open>run_simulation\<close>; how Python prints
  the numbers is the argument \<open>key_of\<close>. \<open>world\<close> gives the behaviour of the external
  calls during the run of a configuration. After \<open>sys.exit(1)\<close> nothing more happens.
\<close>

definition sweep_step ::
  "(config \<Rightarrow> string) \<Rightarrow> (config \<Rightarrow> collaborators) \<Rightarrow> string \<Rightarrow> sweep_state \<Rightarrow> config
     \<Rightarrow> sweep_state" where
  "sweep_step key_of world start_dir st c =
     (if terminated st then st
      else (case c of (energy, channel_diameter, detector_distance, detector_angle) \<Rightarrow>
        (let key = key_of c
         in if already_completed (all_results st) key
            then st\<lparr>completed_simulations := completed_simulations st + 1\<rparr>
            else (case run_simulation key (world c) energy channel_diameter detector_distance
                         detector_angle (process st) of
                    (p, Inr result) \<Rightarrow>
                      (write_intermediate start_dir
                         (st\<lparr>all_results := (all_results st)(key \<mapsto> result),
                             simulated := simulated st @ [c],
                             process := p\<rparr>))
                      \<lparr>completed_simulations := completed_simulations st + 1\<rparr>
                  | (p, Inl err) \<Rightarrow>
                      if err = KeyboardInterrupt
                      then (write_intermediate start_dir
                              (st\<lparr>simulated := simulated st @ [c], process := p\<rparr>))
                           \<lparr>terminated := True\<rparr>
                      else st\<lparr>failed_simulations := failed_simulations st + 1,
                              simulated := simulated st @ [c],
                              process := p\<rparr>))))"

text \<open>Lines 43 to 56: the state in which the loops start.\<close>

definition initial_state :: "string \<Rightarrow> results_file \<Rightarrow> sweep_state" where
  "initial_state start_dir f =
     \<lparr>all_results = load_results f, intermediate_file = f,
      completed_simulations = 0, failed_simulations = 0, simulated = [],
      process = \<lparr>cwd = start_dir, events = []\<rparr>, terminated = False\<rparr>"

definition sweep ::
  "(config \<Rightarrow> string) \<Rightarrow> (config \<Rightarrow> collaborators) \<Rightarrow> string \<Rightarrow> results_file \<Rightarrow> config list
     \<Rightarrow> sweep_state" where
  "sweep key_of world start_dir f cs =
     foldl (sweep_step key_of world start_dir) (initial_state start_dir f) cs"

text \<open>Lines 122 to 124: \<open>final_results.json\<close>, written when the loops have ended.\<close>

definition final_results :: "sweep_state \<Rightarrow> store option" where
  "final_results st = (if terminated st then None else Some (all_results st))"

text \<open>
  The states of the result store that the sweep can be in: it starts without a loadable
  file, runs configurations one after the other, and may be started again from the file
  it has left.
\<close>

inductive reachable :: "(config \<Rightarrow> string) \<Rightarrow> string \<Rightarrow> sweep_state \<Rightarrow> bool"
  for key_of :: "config \<Rightarrow> string" and start_dir :: string where
  fresh: "f = Missing \<or> f = Unreadable \<Longrightarrow> reachable key_of start_dir (initial_state start_dir f)"
| step: "reachable key_of start_dir st \<Longrightarrow>
         reachable key_of start_dir (sweep_step key_of world start_dir st c)"
| restart: "reachable key_of start_dir st \<Longrightarrow>
            reachable key_of start_dir (initial_state start_dir (intermediate_file st))"



subsection \<open>Facts about the table\<close>

lemma length_energies: "length energies = 38"
  by (simp add: energies_def)

lemma length_factors: "length factors = 38"
  by (simp add: factors_def)

lemma energies_strict: "sorted_wrt (<) energies"
  by (simp add: energies_def)

lemma energies_nth_less: "i < j \<Longrightarrow> j < 38 \<Longrightarrow> energies ! i < energies ! j"
  using energies_strict by (simp add: sorted_wrt_nth_less length_energies)

lemma energies_nth_le: "i \<le> j \<Longrightarrow> j < 38 \<Longrightarrow> energies ! i \<le> energies ! j"
  using energies_nth_less [of i j] by (cases "i = j") auto

lemma factors_pos: "i < 38 \<Longrightarrow> 0 < factors ! i"
proof -
  have "\<forall>f \<in> set factors. 0 < f"
    by (simp add: factors_def)
  then show "i < 38 \<Longrightarrow> 0 < factors ! i"
    by (simp add: length_factors)
qed

lemma last_energies: "last energies = energies ! 37"
  by (simp add: energies_def)

lemma last_factors: "last factors = factors ! 37"
  by (simp add: factors_def)


subsection \<open>The interpolation loop\<close>

lemma interp_loop_hit:
  assumes "i < n" "n \<le> 37" "energies ! i < e" "e \<le> energies ! (i + 1)"
  shows "j \<le> i \<Longrightarrow> interp_loop e [j ..< n] = Some (interpolate i e)"
proof (induction "i - j" arbitrary: j)
  case 0
  then have "j = i" by simp
  with assms show ?case by (simp add: upt_conv_Cons)
next
  case (Suc d)
  then have lt: "j < i" by simp
  then have "energies ! (j + 1) \<le> energies ! i"
    using assms by (intro energies_nth_le) auto
  with assms have miss: "\<not> e \<le> energies ! (j + 1)" by simp
  have "[j ..< n] = j # [Suc j ..< n]"
    using lt assms by (simp add: upt_conv_Cons)
  moreover have "interp_loop e [Suc j ..< n] = Some (interpolate i e)"
    using Suc lt by (intro Suc.hyps) auto
  ultimately show ?case using miss by simp
qed

lemma bracket_exists:
  assumes "energies ! 0 < e" "e < energies ! 37"
  shows "\<exists>i<37. energies ! i < e \<and> e \<le> energies ! (i + 1)"
proof -
  define k where "k = (LEAST k. e \<le> energies ! k)"
  have ex: "e \<le> energies ! 37" using assms by simp
  have k1: "e \<le> energies ! k" unfolding k_def using ex by (rule LeastI)
  have k2: "k \<le> 37" unfolding k_def using ex by (rule Least_le)
  have k3: "k \<noteq> 0" using k1 assms by (cases "k = 0") auto
  have "\<not> e \<le> energies ! (k - 1)"
    using k3 not_less_Least [of "k - 1" "\<lambda>k. e \<le> energies ! k"] by (simp add: k_def)
  then show ?thesis using k1 k2 k3 by (intro exI [of _ "k - 1"]) auto
qed

lemma factor_inside:
  assumes "i < 37" "energies ! i < e" "e \<le> energies ! (i + 1)" "e < energies ! 37"
  shows "factor_with_path e = (Interpolated, interpolate i e)"
proof -
  have "energies ! 0 \<le> energies ! i"
    using assms(1) by (intro energies_nth_le) auto
  then have low: "\<not> e \<le> energies ! 0" using assms(2) by simp
  have loop: "interp_loop e [0 ..< 37] = Some (interpolate i e)"
    using assms(1-3) by (intro interp_loop_hit) auto
  show ?thesis
    using low assms(4) loop
    by (simp add: factor_with_path_def last_energies length_energies)
qed

lemma factor_clamp_low: "e \<le> energies ! 0 \<Longrightarrow> factor_with_path e = (Clamp_low, factors ! 0)"
  by (simp add: factor_with_path_def)

lemma factor_clamp_high:
  assumes "energies ! 37 \<le> e"
  shows "factor_with_path e = (Clamp_high, factors ! 37)"
proof -
  have "energies ! 0 < energies ! 37"
    by (intro energies_nth_less) auto
  then have "\<not> e \<le> energies ! 0" using assms by simp
  then show ?thesis
    using assms by (simp add: factor_with_path_def last_energies last_factors)
qed

lemma interpolate_right_end: "i < 37 \<Longrightarrow> interpolate i (energies ! (i + 1)) = factors ! (i + 1)"
proof -
  assume "i < 37"
  then have "energies ! i < energies ! (i + 1)"
    by (intro energies_nth_less) auto
  then show ?thesis by (simp add: interpolate_def Let_def)
qed

lemma factor_at_table_point:
  assumes "k < 38"
  shows "get_flux_to_dose_factor (energies ! k) = factors ! k"
proof -
  have "k = 0 \<or> k = 37 \<or> (\<exists>i<36. k = i + 1)"
    using assms by presburger
  then consider "k = 0" | "k = 37" | i where "k = i + 1" "i < 36"
    by blast
  then show ?thesis
  proof cases
    case 1
    then show ?thesis by (simp add: get_flux_to_dose_factor_def factor_clamp_low)
  next
    case 2
    then show ?thesis by (simp add: get_flux_to_dose_factor_def factor_clamp_high)
  next
    case 3
    have a: "energies ! i < energies ! (i + 1)"
      using 3 by (intro energies_nth_less) auto
    have b: "energies ! (i + 1) < energies ! 37"
      using 3 by (intro energies_nth_less) auto
    have "factor_with_path (energies ! (i + 1)) = (Interpolated, interpolate i (energies ! (i + 1)))"
      using 3 a b by (intro factor_inside) auto
    moreover have "interpolate i (energies ! (i + 1)) = factors ! (i + 1)"
      using 3 by (intro interpolate_right_end) auto
    ultimately show ?thesis
      using 3 by (simp add: get_flux_to_dose_factor_def)
  qed
qed


lemma factor_path_cases:
  "factor_with_path e = (Clamp_low, factors ! 0) \<or>
   factor_with_path e = (Clamp_high, factors ! 37) \<or>
   (\<exists>i<37. energies ! i < e \<and> e \<le> energies ! (i + 1) \<and>
            factor_with_path e = (Interpolated, interpolate i e))"
proof -
  consider "e \<le> energies ! 0" | "energies ! 37 \<le> e" | "energies ! 0 < e" "e < energies ! 37"
    by linarith
  then show ?thesis
  proof cases
    case 1
    then show ?thesis by (simp add: factor_clamp_low)
  next
    case 2
    then show ?thesis by (simp add: factor_clamp_high)
  next
    case 3
    then obtain i where i: "i < 37" "energies ! i < e" "e \<le> energies ! (i + 1)"
      using bracket_exists by blast
    then have "factor_with_path e = (Interpolated, interpolate i e)"
      using 3 by (intro factor_inside) auto
    with i show ?thesis by blast
  qed
qed

lemma interpolate_pos:
  assumes "i < 37" "energies ! i < e" "e \<le> energies ! (i + 1)"
  shows "0 < interpolate i e"
proof -
  define t where "t = (e - energies ! i) / (energies ! (i + 1) - energies ! i)"
  have d: "0 < energies ! (i + 1) - energies ! i" using assms by simp
  have t0: "0 < t" unfolding t_def using assms d by simp
  have t1: "t \<le> 1" unfolding t_def using assms d by simp
  have f0: "0 < factors ! i" using assms(1) by (intro factors_pos) auto
  have f1: "0 < factors ! (i + 1)" using assms(1) by (intro factors_pos) auto
  have "interpolate i e = (1 - t) * factors ! i + t * factors ! (i + 1)"
    by (simp add: interpolate_def Let_def t_def algebra_simps)
  moreover have "0 \<le> (1 - t) * factors ! i" using t1 f0 by simp
  moreover have "0 < t * factors ! (i + 1)" using t0 f1 by simp
  ultimately show ?thesis by linarith
qed

lemma get_flux_to_dose_factor_pos: "0 < get_flux_to_dose_factor e"
  using factor_path_cases [of e] factors_pos [of 0] factors_pos [of 37]
  by (auto simp: get_flux_to_dose_factor_def interpolate_pos)

subsection \<open>Claims about the conversion factor\<close>



text \<open>
  Claim C10. The final nearest-neighbour \<open>return\<close> of \<open>get_flux_to_dose_factor\<close> is
  unreachable: for every real energy strictly between the lowest and the highest
  tabulated energy the loop finds an index \<open>i\<close> with
  \<open>energies[i] \<le> energy \<le> energies[i+1]\<close> and returns from inside the loop; so no
  energy at all takes the nearest-neighbour path.
\<close>

theorem nearest_neighbour_unreachable:
  "(energies ! 0 < e \<and> e < last energies \<longrightarrow>
      (\<exists>i < length energies - 1. energies ! i \<le> e \<and> e \<le> energies ! (i + 1) \<and>
         interp_loop e [0 ..< length energies - 1] = Some (interpolate i e))) \<and>
   fst (factor_with_path e) \<noteq> Nearest_neighbour"
proof
  show "energies ! 0 < e \<and> e < last energies \<longrightarrow>
      (\<exists>i < length energies - 1. energies ! i \<le> e \<and> e \<le> energies ! (i + 1) \<and>
         interp_loop e [0 ..< length energies - 1] = Some (interpolate i e))"
  proof
    assume a: "energies ! 0 < e \<and> e < last energies"
    then obtain i where i: "i < 37" "energies ! i < e" "e \<le> energies ! (i + 1)"
      using bracket_exists [of e] by (auto simp: last_energies)
    then have "interp_loop e [0 ..< 37] = Some (interpolate i e)"
      by (intro interp_loop_hit) auto
    with i show "\<exists>i < length energies - 1. energies ! i \<le> e \<and> e \<le> energies ! (i + 1) \<and>
         interp_loop e [0 ..< length energies - 1] = Some (interpolate i e)"
      by (intro exI [of _ i]) (simp add: length_energies)
  qed
  show "fst (factor_with_path e) \<noteq> Nearest_neighbour"
    using factor_path_cases [of e] by auto
qed

text \<open>The theorem used at 0.02 MeV, strictly inside the table.\<close>

theorem nearest_neighbour_unreachable_witness:
  "energies ! 0 < 0.02 \<and> (0.02::real) < last energies \<and>
   (\<exists>i < length energies - 1. energies ! i \<le> 0.02 \<and> 0.02 \<le> energies ! (i + 1) \<and>
      interp_loop 0.02 [0 ..< length energies - 1] = Some (interpolate i 0.02)) \<and>
   fst (factor_with_path 0.02) \<noteq> Nearest_neighbour"
proof -
  have h: "energies ! 0 < 0.02 \<and> (0.02::real) < last energies"
    by (simp add: energies_def)
  show ?thesis using h nearest_neighbour_unreachable [of "0.02"] by blast
qed

subsection \<open>The analytic dose model\<close>

lemma source_to_wall_distance_nz: "source_to_wall_distance \<noteq> 0"
  by (simp add: source_to_wall_distance_def ft_to_cm_def)

lemma flux_product_Inr:
  "path_length \<noteq> 0 \<Longrightarrow>
   flux_product energy channel_diameter detector_angle path_length =
     Inr (source_strength * solid_angle_value channel_diameter
          * exp (- atten_coeff energy * path_length) * (1 / path_length^2)
          * cos (radians (min detector_angle 80)) * (pi * (detector_diameter / 2)^2))"
  by (simp add: flux_product_def calculate_solid_angle_def source_to_wall_distance_nz
      solid_angle_value_def Let_def)



lemma estimated_flux_pos:
  "estimated_flux energy channel_diameter detector_angle path_length = Inr f \<Longrightarrow> 0 < f"
  by (auto simp: estimated_flux_def split: sum.splits)

lemma estimate_nonneg:
  assumes "estimate_physics_based_dose energy cd dd da pl = Inr v"
  shows "0 \<le> v"
proof -
  from assms obtain f where f: "estimated_flux energy cd da pl = Inr f"
    by (auto simp: estimate_physics_based_dose_def split: sum.splits)
  then have "0 < f" by (rule estimated_flux_pos)
  then have "0 \<le> f * get_flux_to_dose_factor energy * energy^2"
    using get_flux_to_dose_factor_pos [of energy] by simp
  moreover have "f * get_flux_to_dose_factor energy * energy^2 \<le> v"
    using assms f by (auto simp: estimate_physics_based_dose_def Let_def split: if_splits)
  ultimately show ?thesis by linarith
qed





text \<open>A lower bound of the flux product at one configuration of the sweep.\<close>

lemma one_minus_cos_arctan_ge:
  assumes "x\<^sup>2 \<le> 8"
  shows "x\<^sup>2 / (4 + x\<^sup>2) \<le> 1 - cos (arctan x)"
proof -
  define y where "y = x\<^sup>2"
  have y0: "0 \<le> y" by (simp add: y_def)
  have y8: "y \<le> 8" using assms by (simp add: y_def)
  have "(1 + y / 4)\<^sup>2 = 1 + y / 2 + y * y / 16"
    by (simp add: power2_eq_square algebra_simps)
  moreover have "y * y \<le> 8 * y"
    using y0 y8 by (intro mult_right_mono) auto
  ultimately have "(1 + y / 4)\<^sup>2 \<le> 1 + y" by simp
  then have s: "1 + y / 4 \<le> sqrt (1 + y)" by (rule real_le_rsqrt)
  have p: "0 < 1 + y / 4" using y0 by linarith
  have "1 / sqrt (1 + y) \<le> 1 / (1 + y / 4)"
    using s p by (simp add: frac_le)
  moreover have "1 - 1 / (1 + y / 4) = y / (4 + y)"
    using p by (simp add: field_simps)
  ultimately show ?thesis by (simp add: cos_arctan y_def)
qed

lemma solid_angle_value_half_ge: "1 / 10^6 \<le> solid_angle_value 0.5"
proof -
  define x :: real where "x = 0.5 / 2 / source_to_wall_distance"
  have x2: "x\<^sup>2 = (25 / 18288)\<^sup>2"
    by (simp add: x_def source_to_wall_distance_def ft_to_cm_def)
  have "x\<^sup>2 \<le> 8" unfolding x2 by (simp add: power2_eq_square)
  then have "x\<^sup>2 / (4 + x\<^sup>2) \<le> 1 - cos (arctan x)" by (rule one_minus_cos_arctan_ge)
  moreover have "1 / (3 * 10^6) \<le> x\<^sup>2 / (4 + x\<^sup>2)"
    unfolding x2 by (simp add: power2_eq_square)
  ultimately have a: "1 / (3 * 10^6) \<le> 1 - cos (arctan x)" by linarith
  have "2 * 2 * (1 / (3 * 10^6)) \<le> 2 * pi * (1 - cos (arctan x))"
    using a pi_ge_two by (intro mult_mono) auto
  then show ?thesis by (simp add: solid_angle_value_def x_def)
qed

lemma flux_product_standard:
  "\<exists>r. flux_product 1 0.5 0 273.84 = Inr r \<and> 100 < r"
proof -
  define S where "S = solid_angle_value 0.5"
  define E where "E = exp (- atten_coeff 1 * 273.84)"
  define Ar where "Ar = pi * (detector_diameter / 2)^2"
  define r where "r = source_strength * S * E * (1 / 273.84^2)
          * cos (radians (min 0 80)) * Ar"
  have eq: "flux_product 1 0.5 0 273.84 = Inr r"
    unfolding r_def S_def E_def Ar_def by (intro flux_product_Inr) simp
  have e: "0.17 \<le> E"
    unfolding E_def
    using exp_ge_add_one_self [of "- atten_coeff 1 * 273.84"] by (simp add: atten_coeff_def)
  have c: "cos (radians (min 0 80)) = 1" by (simp add: radians_def)
  have s: "1 / 10^6 \<le> S" unfolding S_def by (rule solid_angle_value_half_ge)
  have a: "450 \<le> Ar"
    unfolding Ar_def using pi_ge_two by (simp add: detector_diameter_def power2_eq_square)
  have se: "1 / 10^6 * 0.17 \<le> S * E"
    using s e by (rule mult_mono) (use s in auto)
  have sea: "1 / 10^6 * 0.17 * 450 \<le> S * E * Ar"
    using se a by (rule mult_mono) (use se in auto)
  have "10^12 * (1 / 273.84^2) * (1 / 10^6 * 0.17 * 450) \<le> 10^12 * (1 / 273.84^2) * (S * E * Ar)"
    using sea by (rule mult_left_mono) simp
  moreover have "(100::real) < 10^12 * (1 / 273.84^2) * (1 / 10^6 * 0.17 * 450)"
    by (simp add: power2_eq_square)
  moreover have "r = 10^12 * (1 / 273.84^2) * (S * E * Ar)"
    unfolding r_def c source_strength_def by simp
  ultimately have "100 < r" by linarith
  with eq show ?thesis by blast
qed



subsection \<open>One run of the simulation\<close>

text \<open>Values at the configuration 1 MeV, 0.5 cm, 30 cm, 0 degrees.\<close>

lemma get_flux_to_dose_factor_1: "get_flux_to_dose_factor 1 = 1.98 / 10^6"
  using factor_at_table_point [of 18] by (simp add: energies_def factors_def)

lemma fallback_path_length_30: "fallback_path_length 30 = 273.84"
  by (simp add: fallback_path_length_def source_to_wall_distance_def wall_thickness_def ft_to_cm_def)

lemma estimate_standard:
  "\<exists>v. estimate_physics_based_dose 1 0.5 30 0 273.84 = Inr v \<and> 1 / 10^4 < v"
proof -
  obtain r where r: "flux_product 1 0.5 0 273.84 = Inr r" "100 < r"
    using flux_product_standard by blast
  have f: "estimated_flux 1 0.5 0 273.84 = Inr r"
    using r by (simp add: estimated_flux_def max_def)
  define m :: real where "m = 1 / 10^7 * 1 * (0.5 / 0.05) / (1 + 0 / 10)"
  have e: "estimate_physics_based_dose 1 0.5 30 0 273.84 = Inr (max (r * (1.98 / 10^6)) m)"
    using f by (simp add: estimate_physics_based_dose_def Let_def get_flux_to_dose_factor_1 m_def)
  have "1 / 10^4 < r * (1.98 / 10^6)" using r(2) by simp
  then have "1 / 10^4 < max (r * (1.98 / 10^6)) m" by (simp add: less_max_iff_disj)
  with e show ?thesis by blast
qed

text \<open>Inversion of the stages of a run.\<close>

lemma save_and_plot_Inr:
  "save_and_plot w e cd dd da tf d sp mesh p = (p', Inr r) \<Longrightarrow>
   visualisation_raises w = None \<and> r = full_result e cd dd da tf d sp mesh \<and> cwd p' = cwd p"
  by (auto simp: save_and_plot_def Let_def log_event_def split: option.splits)

lemma save_and_plot_Inl:
  "save_and_plot w e cd dd da tf d sp mesh p = (p', Inl x) \<Longrightarrow>
   visualisation_raises w = Some x \<and> cwd p' = cwd p"
  by (auto simp: save_and_plot_def Let_def log_event_def split: option.splits)

lemma try_body_Inr:
  assumes "try_body rid w e cd dd da od p = (p', Inr r)"
  shows "cwd p' = od \<and> export_raises w = None \<and> chdir_raises w = None \<and>
         openmc_run_raises w = None \<and> visualisation_raises w = None \<and>
         (\<exists>mesh sp d. statepoint_read w = Inr (mesh, sp) \<and>
            r = full_result e cd dd da (sum_list sp) d sp mesh \<and>
            (if sum_list sp < 1 / 10^6 \<or> sum_list sp * get_flux_to_dose_factor e < 1 / 10^10
             then estimate_physics_based_dose e cd dd da (fallback_path_length dd) = Inr d
             else d = sum_list sp * get_flux_to_dose_factor e))"
  using assms
  by (auto simp: try_body_def Let_def log_event_def
      split: option.splits sum.splits prod.splits if_splits
      dest!: save_and_plot_Inr)

lemma try_body_Inl_cwd:
  assumes "try_body rid w e cd dd da od p = (p', Inl x)"
  shows "cwd p' = cwd p \<or> cwd p' = od \<or>
         (openmc_run_raises w = Some x \<and> cwd p' = cwd p @ ''/'' @ run_dir rid)"
  using assms
  by (auto simp: try_body_def Let_def log_event_def
      split: option.splits sum.splits prod.splits if_splits
      dest!: save_and_plot_Inl)

lemma except_handler_Inr:
  "except_handler e cd dd da od p = (p', Inr r) \<Longrightarrow>
   cwd p' = od \<and>
   (\<exists>v. estimate_physics_based_dose e cd dd da (fallback_path_length dd) = Inr v \<and>
        r = minimal_result e cd dd da v)"
  by (auto simp: except_handler_def Let_def log_event_def split: sum.splits)

lemma except_handler_cwd: "cwd (fst (except_handler e cd dd da od p)) = od"
  by (auto simp: except_handler_def Let_def log_event_def split: sum.splits)

text \<open>What a run that returns has returned.\<close>

lemma run_simulation_Inr:
  assumes "run_simulation rid w e cd dd da p = (p', Inr r)"
  shows "cwd p' = cwd p \<and>
    ((export_raises w = None \<and> chdir_raises w = None \<and>
      openmc_run_raises w = None \<and> visualisation_raises w = None \<and>
      (\<exists>mesh sp d. statepoint_read w = Inr (mesh, sp) \<and>
            r = full_result e cd dd da (sum_list sp) d sp mesh \<and>
            (if sum_list sp < 1 / 10^6 \<or> sum_list sp * get_flux_to_dose_factor e < 1 / 10^10
             then estimate_physics_based_dose e cd dd da (fallback_path_length dd) = Inr d
             else d = sum_list sp * get_flux_to_dose_factor e)))
     \<or>
     ((\<exists>x p1. try_body rid w e cd dd da (cwd p) p = (p1, Inl x) \<and> is_Exception x) \<and>
      (\<exists>v. estimate_physics_based_dose e cd dd da (fallback_path_length dd) = Inr v \<and>
        r = minimal_result e cd dd da v)))"
  using assms
  by (auto simp: run_simulation_def Let_def
      split: option.splits sum.splits prod.splits if_splits
      dest!: try_body_Inr except_handler_Inr)

lemma try_body_Inl:
  assumes "try_body rid w e cd dd da od p = (p', Inl x)"
  shows "export_raises w = Some x \<or> chdir_raises w = Some x \<or> openmc_run_raises w = Some x \<or>
         statepoint_read w = Inl x \<or> visualisation_raises w = Some x \<or>
         estimate_physics_based_dose e cd dd da (fallback_path_length dd) = Inl x"
  using assms
  by (auto simp: try_body_def Let_def log_event_def
      split: option.splits sum.splits prod.splits if_splits
      dest!: save_and_plot_Inl)

lemma except_handler_cwd_eq: "except_handler e cd dd da od p = (p', out) \<Longrightarrow> cwd p' = od"
  using except_handler_cwd [of e cd dd da od p] by simp

lemma run_simulation_cwd_restored:
  assumes "run_simulation rid w e cd dd da p = (p', out)"
    and "out \<noteq> Inl KeyboardInterrupt"
  shows "cwd p' = cwd p"
proof (cases out)
  case (Inr r)
  then show ?thesis using assms(1) run_simulation_Inr by blast
next
  case (Inl y)
  then have exc: "is_Exception y" using assms(2) by (simp add: is_Exception_def)
  show ?thesis
    using assms(1) Inl exc
    by (auto simp: run_simulation_def Let_def
        split: option.splits sum.splits prod.splits if_splits
        dest: except_handler_cwd_eq)
qed

lemma dom_full_result:
  "dom (full_result e cd dd da tf d sp mesh) =
     {''energy'', ''channel_diameter'', ''detector_distance'', ''detector_angle'',
      ''detector_x'', ''detector_y'', ''total_flux'', ''dose_rem_per_hr'', ''spectrum'',
      ''mesh_result''}"
  by (auto simp: full_result_def)

lemma dom_minimal_result:
  "dom (minimal_result e cd dd da v) =
     {''energy'', ''channel_diameter'', ''detector_distance'', ''detector_angle'',
      ''detector_x'', ''detector_y'', ''dose_rem_per_hr''}"
  by (auto simp: minimal_result_def)

lemma full_result_dose: "full_result e cd dd da tf d sp mesh ''dose_rem_per_hr'' = Some (Num d)"
  by (simp add: full_result_def)

lemma minimal_result_dose: "minimal_result e cd dd da v ''dose_rem_per_hr'' = Some (Num v)"
  by (simp add: minimal_result_def)

text \<open>
  Claim C3, amended. In every result that \<open>run_simulation\<close> returns, \<open>dose_rem_per_hr\<close> is
  present. \<open>total_flux\<close>, \<open>spectrum\<close> and \<open>mesh_result\<close> are present exactly when no
  exception was raised inside the \<open>try\<close> (model exported, engine run, statepoint read,
  plots written), whether or not the statistics were usable; then the result has all ten
  fields. Otherwise it has only the four configuration fields, the detector position and
  the fallback dose.
\<close>

theorem result_fields:
  assumes "run_simulation run_id w energy channel_diameter detector_distance detector_angle p
             = (p', Inr r)"
  shows "(\<exists>d. r ''dose_rem_per_hr'' = Some (Num d)) \<and>
         (if export_raises w = None \<and> chdir_raises w = None \<and> openmc_run_raises w = None \<and>
             (\<exists>mesh_result spectrum. statepoint_read w = Inr (mesh_result, spectrum)) \<and>
             visualisation_raises w = None
          then dom r = {''energy'', ''channel_diameter'', ''detector_distance'',
                        ''detector_angle'', ''detector_x'', ''detector_y'', ''total_flux'',
                        ''dose_rem_per_hr'', ''spectrum'', ''mesh_result''}
          else dom r = {''energy'', ''channel_diameter'', ''detector_distance'',
                        ''detector_angle'', ''detector_x'', ''detector_y'',
                        ''dose_rem_per_hr''})"
proof -
  let ?ok = "export_raises w = None \<and> chdir_raises w = None \<and> openmc_run_raises w = None \<and>
             (\<exists>mesh_result spectrum. statepoint_read w = Inr (mesh_result, spectrum)) \<and>
             visualisation_raises w = None"
  from run_simulation_Inr [OF assms]
  consider
    (full) mesh sp d where "?ok" "r = full_result energy channel_diameter detector_distance
        detector_angle (sum_list sp) d sp mesh"
  | (minimal) x p1 v where
      "try_body run_id w energy channel_diameter detector_distance detector_angle (cwd p) p
         = (p1, Inl x)"
      "estimate_physics_based_dose energy channel_diameter detector_distance detector_angle
         (fallback_path_length detector_distance) = Inr v"
      "r = minimal_result energy channel_diameter detector_distance detector_angle v"
    by blast
  then show ?thesis
  proof cases
    case full
    then show ?thesis by (simp add: dom_full_result full_result_dose)
  next
    case minimal
    have nok: "\<not> ?ok"
      using try_body_Inl [OF minimal(1)] minimal(2) by auto
    have keys: "dom r = {''energy'', ''channel_diameter'', ''detector_distance'',
                        ''detector_angle'', ''detector_x'', ''detector_y'',
                        ''dose_rem_per_hr''}"
      using minimal(3) by (simp add: dom_minimal_result)
    have dose: "\<exists>d. r ''dose_rem_per_hr'' = Some (Num d)"
      using minimal(3) by (simp add: minimal_result_dose)
    show ?thesis
      using nok keys dose by (simp only: if_not_P simp_thms)
  qed
qed


text \<open>
  The theorem at 1 MeV, a 0.5 cm channel, 30 cm and 0 degrees, with every call returning
  and a detector flux of 1.
\<close>

theorem result_fields_witness:
  "run_simulation ''E1.0_D0.5_dist30_ang0'' (quiet [ [0] ] [1]) 1 0.5 30 0
     \<lparr>cwd = ''/home/user'', events = []\<rparr>
   = (\<lparr>cwd = ''/home/user'', events = [Engine_run, Visualisation]\<rparr>,
      Inr (full_result 1 0.5 30 0 1 (1.98 / 10^6) [1] [ [0] ])) \<and>
   (\<exists>d. full_result 1 0.5 30 0 1 (1.98 / 10^6) [1] [ [0] ] ''dose_rem_per_hr'' = Some (Num d)) \<and>
   dom (full_result 1 0.5 30 0 1 (1.98 / 10^6) [1] [ [0] ]) =
     {''energy'', ''channel_diameter'', ''detector_distance'', ''detector_angle'',
      ''detector_x'', ''detector_y'', ''total_flux'', ''dose_rem_per_hr'', ''spectrum'',
      ''mesh_result''}"
proof -
  have run: "run_simulation ''E1.0_D0.5_dist30_ang0'' (quiet [ [0] ] [1]) 1 0.5 30 0
     \<lparr>cwd = ''/home/user'', events = []\<rparr>
   = (\<lparr>cwd = ''/home/user'', events = [Engine_run, Visualisation]\<rparr>,
      Inr (full_result 1 0.5 30 0 1 (1.98 / 10^6) [1] [ [0] ]))"
    by (simp add: run_simulation_def try_body_def quiet_def log_event_def save_and_plot_def
        get_flux_to_dose_factor_1)
  show ?thesis
    using run result_fields [OF run] by (simp add: quiet_def)
qed

text \<open>
  Claim C3 as stated fails: with every call returning and a detector flux of 0 (below
  \<open>1e-6\<close>, so the statistics are not usable and the dose is the analytic estimate) the
  result still carries \<open>total_flux\<close>, \<open>spectrum\<close> and \<open>mesh_result\<close>.
\<close>

theorem result_fields_counterexample:
  "sum_list [0::real] < 1 / 10^6 \<and>
   (case run_simulation ''E1.0_D0.5_dist30_ang0'' (quiet [ [0] ] [0]) 1 0.5 30 0
           \<lparr>cwd = ''/home/user'', events = []\<rparr> of
      (p', Inr r) \<Rightarrow>
        r ''total_flux'' = Some (Num 0) \<and> r ''spectrum'' = Some (Num_list [0]) \<and>
        r ''mesh_result'' = Some (Num_grid [ [0] ]) \<and>
        (case r ''dose_rem_per_hr'' of
           Some (Num d) \<Rightarrow> estimate_physics_based_dose 1 0.5 30 0 273.84 = Inr d
         | _ \<Rightarrow> False)
    | (p', Inl err) \<Rightarrow> False)"
proof -
  obtain v where v: "estimate_physics_based_dose 1 0.5 30 0 273.84 = Inr v"
    using estimate_standard by blast
  then show ?thesis
    by (simp add: run_simulation_def try_body_def quiet_def log_event_def save_and_plot_def
        fallback_path_length_30 full_result_def)
qed

text \<open>
  Claim C2, amended. Let the Monte Carlo extraction succeed, with
  \<open>total_flux\<close> the summed detector flux, \<open>dose = total_flux * factor\<close> and
  \<open>path_length = source_to_wall_distance + wall_thickness + detector_distance\<close>.
  If the plotting calls return and neither \<open>total_flux < 1e-6\<close> nor \<open>dose < 1e-10\<close>, the
  returned \<open>dose_rem_per_hr\<close> is \<open>total_flux * factor\<close>. If the plotting calls return
  and \<open>total_flux < 1e-6\<close> or \<open>dose < 1e-10\<close>, it is the analytic estimate. If a
  plotting call raises a subclass of \<open>Exception\<close>, it is the analytic estimate whatever
  the flux, and \<open>total_flux\<close> is dropped from the result.
\<close>

theorem fallback_trigger:
  assumes pre: "create_materials_raises w = None" "create_geometry_raises w = None"
      "create_source_raises w = None" "create_tallies_raises w = None" "makedirs_raises w = None"
    and mc: "export_raises w = None" "chdir_raises w = None" "openmc_run_raises w = None"
      "statepoint_read w = Inr (mesh_result, spectrum)"
    and tf: "total_flux = sum_list spectrum"
    and ds: "dose = total_flux * get_flux_to_dose_factor energy"
    and pl: "path_length = source_to_wall_distance + wall_thickness + detector_distance"
  shows
    "(visualisation_raises w = None \<and> \<not> (total_flux < 1 / 10^6 \<or> dose < 1 / 10^10) \<longrightarrow>
        (\<exists>p' r. run_simulation run_id w energy channel_diameter detector_distance
                   detector_angle p = (p', Inr r) \<and>
                 r ''dose_rem_per_hr'' = Some (Num dose) \<and>
                 r ''total_flux'' = Some (Num total_flux))) \<and>
     (\<forall>v. estimate_physics_based_dose energy channel_diameter detector_distance
             detector_angle path_length = Inr v \<and>
           visualisation_raises w = None \<and> (total_flux < 1 / 10^6 \<or> dose < 1 / 10^10) \<longrightarrow>
        (\<exists>p' r. run_simulation run_id w energy channel_diameter detector_distance
                   detector_angle p = (p', Inr r) \<and>
                 r ''dose_rem_per_hr'' = Some (Num v) \<and>
                 r ''total_flux'' = Some (Num total_flux))) \<and>
     (\<forall>v err. estimate_physics_based_dose energy channel_diameter detector_distance
             detector_angle path_length = Inr v \<and>
           visualisation_raises w = Some err \<and> is_Exception err \<longrightarrow>
        (\<exists>p' r. run_simulation run_id w energy channel_diameter detector_distance
                   detector_angle p = (p', Inr r) \<and>
                 r ''dose_rem_per_hr'' = Some (Num v) \<and>
                 r ''total_flux'' = None))"
  using pre mc tf ds pl
  by (auto simp: run_simulation_def try_body_def except_handler_def save_and_plot_def
      log_event_def Let_def fallback_path_length_def full_result_def minimal_result_def)


text \<open>
  The theorem at 1 MeV, a 0.5 cm channel, 30 cm and 0 degrees: with a detector flux of 1
  the dose is \<open>total_flux * factor\<close>, with a detector flux of 0 it is the analytic
  estimate.
\<close>

theorem fallback_trigger_witness:
  "(\<not> (sum_list [1::real] < 1 / 10^6 \<or> sum_list [1] * get_flux_to_dose_factor 1 < 1 / 10^10) \<and>
    (\<exists>p' r. run_simulation ''E1.0_D0.5_dist30_ang0'' (quiet [ [0] ] [1]) 1 0.5 30 0
               \<lparr>cwd = ''/home/user'', events = []\<rparr> = (p', Inr r) \<and>
             r ''dose_rem_per_hr'' = Some (Num (sum_list [1] * get_flux_to_dose_factor 1)))) \<and>
   (sum_list [0::real] < 1 / 10^6 \<and>
    (\<exists>v p' r. estimate_physics_based_dose 1 0.5 30 0
                 (source_to_wall_distance + wall_thickness + 30) = Inr v \<and>
             run_simulation ''E1.0_D0.5_dist30_ang0'' (quiet [ [0] ] [0]) 1 0.5 30 0
               \<lparr>cwd = ''/home/user'', events = []\<rparr> = (p', Inr r) \<and>
             r ''dose_rem_per_hr'' = Some (Num v)))"
proof -
  have pl: "source_to_wall_distance + wall_thickness + 30 = 273.84"
    using fallback_path_length_30 by (simp add: fallback_path_length_def)
  obtain v where v: "estimate_physics_based_dose 1 0.5 30 0
                 (source_to_wall_distance + wall_thickness + 30) = Inr v"
    using estimate_standard pl by auto
  have high: "\<not> (sum_list [1::real] < 1 / 10^6 \<or> sum_list [1] * get_flux_to_dose_factor 1 < 1 / 10^10)"
    by (simp add: get_flux_to_dose_factor_1)
  have low: "sum_list [0::real] < 1 / 10^6" by simp
  have a: "\<exists>p' r. run_simulation ''E1.0_D0.5_dist30_ang0'' (quiet [ [0] ] [1]) 1 0.5 30 0
               \<lparr>cwd = ''/home/user'', events = []\<rparr> = (p', Inr r) \<and>
             r ''dose_rem_per_hr'' = Some (Num (sum_list [1] * get_flux_to_dose_factor 1))"
    using high
      fallback_trigger [of "quiet [ [0] ] [1]" "[ [0] ]" "[1]" "sum_list [1]"
        "sum_list [1] * get_flux_to_dose_factor 1" 1
        "source_to_wall_distance + wall_thickness + 30" 30
        "''E1.0_D0.5_dist30_ang0''" "0.5" 0 "\<lparr>cwd = ''/home/user'', events = []\<rparr>"]
    by (simp add: quiet_def) blast
  have b: "\<exists>p' r. run_simulation ''E1.0_D0.5_dist30_ang0'' (quiet [ [0] ] [0]) 1 0.5 30 0
               \<lparr>cwd = ''/home/user'', events = []\<rparr> = (p', Inr r) \<and>
             r ''dose_rem_per_hr'' = Some (Num v)"
    using low v
      fallback_trigger [of "quiet [ [0] ] [0]" "[ [0] ]" "[0]" "sum_list [0]"
        "sum_list [0] * get_flux_to_dose_factor 1" 1
        "source_to_wall_distance + wall_thickness + 30" 30
        "''E1.0_D0.5_dist30_ang0''" "0.5" 0 "\<lparr>cwd = ''/home/user'', events = []\<rparr>"]
    by (simp add: quiet_def) blast
  show ?thesis using high low a b v by blast
qed

text \<open>
  Claim C2 as stated fails: the extraction succeeds with a detector flux of 1, neither
  threshold is met, a plotting call raises, and the returned dose is the analytic
  estimate, which differs from \<open>total_flux * factor\<close>.
\<close>

theorem fallback_trigger_counterexample:
  "1 / 10^6 \<le> sum_list [1::real] \<and> 1 / 10^10 \<le> sum_list [1] * get_flux_to_dose_factor 1 \<and>
   (case run_simulation ''E1.0_D0.5_dist30_ang0''
           ((quiet [ [0] ] [1])\<lparr>visualisation_raises := Some OtherException\<rparr>) 1 0.5 30 0
           \<lparr>cwd = ''/home/user'', events = []\<rparr> of
      (p', Inr r) \<Rightarrow>
        (case r ''dose_rem_per_hr'' of
           Some (Num d) \<Rightarrow>
             d \<noteq> sum_list [1] * get_flux_to_dose_factor 1 \<and>
             estimate_physics_based_dose 1 0.5 30 0
               (source_to_wall_distance + wall_thickness + 30) = Inr d
         | _ \<Rightarrow> False)
    | (p', Inl err) \<Rightarrow> False)"
proof -
  have pl: "source_to_wall_distance + wall_thickness + 30 = 273.84"
    using fallback_path_length_30 by (simp add: fallback_path_length_def)
  obtain v where v: "estimate_physics_based_dose 1 0.5 30 0 273.84 = Inr v" "1 / 10^4 < v"
    using estimate_standard by blast
  have ne: "v \<noteq> 1.98 / 10^6" using v(2) by auto
  show ?thesis
    using v(1) ne
    by (simp add: run_simulation_def try_body_def except_handler_def quiet_def log_event_def
        save_and_plot_def fallback_path_length_30 pl minimal_result_def
        get_flux_to_dose_factor_1 is_Exception_def)
qed




text \<open>
  Claim C7 (the working directory is restored on every exit path) fails on the code: a
  \<open>KeyboardInterrupt\<close> during \<open>openmc.run()\<close> is not caught by \<open>except Exception\<close>, so it
  leaves \<open>run_simulation\<close> with the process still in the run directory.
\<close>

theorem interrupt_leaves_run_directory:
  "run_simulation ''E1.0_D0.5_dist30_ang0''
     ((quiet [ [0] ] [1])\<lparr>openmc_run_raises := Some KeyboardInterrupt\<rparr>) 1 0.5 30 0
     \<lparr>cwd = ''/home/user'', events = []\<rparr>
   = (\<lparr>cwd = ''/home/user/results/run_E1.0_D0.5_dist30_ang0'', events = [Engine_run]\<rparr>,
      Inl KeyboardInterrupt)"
  by (simp add: run_simulation_def try_body_def quiet_def log_event_def run_dir_def
      is_Exception_def)

subsection \<open>The sweep\<close>

lemma configurations_length: "length (configurations gamma_energies channel_diameters detector_distances detector_angles) = 36"
  by (simp add: configurations_def gamma_energies_def channel_diameters_def detector_distances_def detector_angles_def)

lemma configurations_order: "take 4 (configurations gamma_energies channel_diameters detector_distances detector_angles) = [(0.1, 0.05, 30, 0), (0.1, 0.05, 30, 15), (0.1, 0.05, 30, 45), (0.1, 0.05, 100, 0)]"
  by (simp add: configurations_def gamma_energies_def channel_diameters_def detector_distances_def detector_angles_def)

lemma run_simulation_dose:
  assumes "run_simulation rid w e cd dd da p = (p', Inr r)"
  shows "\<exists>d. r ''dose_rem_per_hr'' = Some (Num d) \<and> 0 \<le> d"
proof -
  from run_simulation_Inr [OF assms]
  consider
    (full) mesh sp d where
      "r = full_result e cd dd da (sum_list sp) d sp mesh"
      "if sum_list sp < 1 / 10^6 \<or> sum_list sp * get_flux_to_dose_factor e < 1 / 10^10
       then estimate_physics_based_dose e cd dd da (fallback_path_length dd) = Inr d
       else d = sum_list sp * get_flux_to_dose_factor e"
  | (minimal) v where
      "estimate_physics_based_dose e cd dd da (fallback_path_length dd) = Inr v"
      "r = minimal_result e cd dd da v"
    by blast
  then show ?thesis
  proof cases
    case full
    have "0 \<le> d"
    proof (cases "sum_list sp < 1 / 10^6 \<or> sum_list sp * get_flux_to_dose_factor e < 1 / 10^10")
      case True
      then show ?thesis using full(2) estimate_nonneg by simp
    next
      case False
      then have "1 / 10^10 \<le> d" using full(2) by simp
      moreover have "(0::real) \<le> 1 / 10^10" by simp
      ultimately show ?thesis by linarith
    qed
    then show ?thesis using full(1) by (simp add: full_result_dose)
  next
    case minimal
    then show ?thesis using estimate_nonneg by (simp add: minimal_result_dose)
  qed
qed


text \<open>The cases of one step.\<close>

lemma all_results_write_intermediate [simp]:
  "all_results (write_intermediate s st) = all_results st"
  "simulated (write_intermediate s st) = simulated st"
  "process (write_intermediate s st) = process st"
  "terminated (write_intermediate s st) = terminated st"
  "completed_simulations (write_intermediate s st) = completed_simulations st"
  "failed_simulations (write_intermediate s st) = failed_simulations st"
  by (simp_all add: write_intermediate_def)

lemma sweep_step_cases [case_names stopped skipped ran interrupted failed]:
  fixes c :: config
  obtains
    (stopped) "terminated st" "sweep_step k w s st c = st"
  | (skipped) "\<not> terminated st" "already_completed (all_results st) (k c)"
      "sweep_step k w s st c = st\<lparr>completed_simulations := completed_simulations st + 1\<rparr>"
  | (ran) e cd dd da p r where "c = (e, cd, dd, da)"
      "\<not> terminated st" "\<not> already_completed (all_results st) (k c)"
      "run_simulation (k c) (w c) e cd dd da (process st) = (p, Inr r)"
      "sweep_step k w s st c =
         (write_intermediate s
            (st\<lparr>all_results := (all_results st)(k c \<mapsto> r),
                simulated := simulated st @ [c], process := p\<rparr>))
         \<lparr>completed_simulations := completed_simulations st + 1\<rparr>"
  | (interrupted) e cd dd da p where "c = (e, cd, dd, da)"
      "\<not> terminated st" "\<not> already_completed (all_results st) (k c)"
      "run_simulation (k c) (w c) e cd dd da (process st) = (p, Inl KeyboardInterrupt)"
      "sweep_step k w s st c =
         (write_intermediate s (st\<lparr>simulated := simulated st @ [c], process := p\<rparr>))
         \<lparr>terminated := True\<rparr>"
  | (failed) e cd dd da p err where "c = (e, cd, dd, da)"
      "\<not> terminated st" "\<not> already_completed (all_results st) (k c)"
      "run_simulation (k c) (w c) e cd dd da (process st) = (p, Inl err)"
      "err \<noteq> KeyboardInterrupt"
      "sweep_step k w s st c =
         st\<lparr>failed_simulations := failed_simulations st + 1,
            simulated := simulated st @ [c], process := p\<rparr>"
proof -
  obtain e cd dd da where c: "c = (e, cd, dd, da)" by (cases c) auto
  obtain p out where run: "run_simulation (k c) (w c) e cd dd da (process st) = (p, out)"
    by (cases "run_simulation (k c) (w c) e cd dd da (process st)") auto
  show thesis
  proof (cases "terminated st")
    case True
    then show ?thesis using stopped by (simp add: sweep_step_def)
  next
    case live: False
    show ?thesis
    proof (cases "already_completed (all_results st) (k c)")
      case True
      then show ?thesis using live skipped by (simp add: sweep_step_def c)
    next
      case todo: False
      show ?thesis
      proof (cases out)
        case (Inr r)
        then show ?thesis
          using live todo run c ran [of e cd dd da p r] by (simp add: sweep_step_def)
      next
        case (Inl err)
        show ?thesis
        proof (cases "err = KeyboardInterrupt")
          case True
          then show ?thesis
            using live todo run c Inl interrupted [of e cd dd da p] by (simp add: sweep_step_def)
        next
          case False
          then show ?thesis
            using live todo run c Inl failed [of e cd dd da p err] by (simp add: sweep_step_def)
        qed
      qed
    qed
  qed
qed


lemma sweep_step_completed:
  assumes "already_completed (all_results st) key"
  shows "already_completed (all_results (sweep_step k w s st c)) key"
proof (cases rule: sweep_step_cases [where st = st and k = k and w = w and s = s and c = c])
  case (ran e cd dd da p r)
  have "r ''dose_rem_per_hr'' \<noteq> None"
    using run_simulation_dose [OF ran(4)] by auto
  then show ?thesis
    using assms ran(5) by (simp add: already_completed_def)
qed (use assms in auto)

lemma sweep_step_simulated:
  assumes "x \<in> set (simulated (sweep_step k w s st c))"
  shows "x \<in> set (simulated st) \<or> (x = c \<and> \<not> already_completed (all_results st) (k c))"
  using assms by (cases rule: sweep_step_cases [where st = st and k = k and w = w and s = s and c = c]) auto

lemma sweep_step_terminated:
  "terminated st \<Longrightarrow> sweep_step k w s st c = st"
  by (simp add: sweep_step_def)

lemma sweep_step_counters:
  "failed_simulations st \<le> failed_simulations (sweep_step k w s st c) \<and>
   (terminated st \<longrightarrow> terminated (sweep_step k w s st c))"
  by (cases rule: sweep_step_cases [where st = st and k = k and w = w and s = s and c = c]) auto

lemma sweep_step_done:
  assumes "\<not> terminated (sweep_step k w s st c)"
    and "failed_simulations (sweep_step k w s st c) = failed_simulations st"
  shows "already_completed (all_results (sweep_step k w s st c)) (k c)"
proof (cases rule: sweep_step_cases [where st = st and k = k and w = w and s = s and c = c])
  case (ran e cd dd da p r)
  have "r ''dose_rem_per_hr'' \<noteq> None"
    using run_simulation_dose [OF ran(4)] by auto
  then show ?thesis using ran(5) by (simp add: already_completed_def)
qed (use assms in auto)

text \<open>From one step to the whole loop.\<close>

lemma fold_completed:
  "already_completed (all_results st) key \<Longrightarrow>
   already_completed (all_results (foldl (sweep_step k w s) st cs)) key"
  by (induction cs arbitrary: st) (auto intro: sweep_step_completed)

lemma fold_simulated:
  "x \<in> set (simulated (foldl (sweep_step k w s) st cs)) \<Longrightarrow>
   x \<in> set (simulated st) \<or> (x \<in> set cs \<and> \<not> already_completed (all_results st) (k x))"
proof (induction cs arbitrary: st)
  case Nil
  then show ?case by simp
next
  case (Cons c cs)
  then have "x \<in> set (simulated (sweep_step k w s st c)) \<or>
        (x \<in> set cs \<and> \<not> already_completed (all_results (sweep_step k w s st c)) (k x))"
    by simp
  then show ?case
  proof
    assume "x \<in> set (simulated (sweep_step k w s st c))"
    then show ?thesis using sweep_step_simulated [of x k w s st c] by auto
  next
    assume "x \<in> set cs \<and> \<not> already_completed (all_results (sweep_step k w s st c)) (k x)"
    then show ?thesis using sweep_step_completed [of st "k x" k w s c] by auto
  qed
qed

lemma fold_all_done:
  "\<not> terminated st \<Longrightarrow> \<forall>c \<in> set cs. already_completed (all_results st) (k c) \<Longrightarrow>
   foldl (sweep_step k w s) st cs
     = st\<lparr>completed_simulations := completed_simulations st + length cs\<rparr>"
proof (induction cs arbitrary: st)
  case Nil
  then show ?case by simp
next
  case (Cons c cs)
  have step: "sweep_step k w s st c = st\<lparr>completed_simulations := completed_simulations st + 1\<rparr>"
    using Cons.prems by (cases c) (simp add: sweep_step_def)
  have "foldl (sweep_step k w s) (st\<lparr>completed_simulations := completed_simulations st + 1\<rparr>) cs
      = (st\<lparr>completed_simulations := completed_simulations st + 1\<rparr>)
          \<lparr>completed_simulations :=
             completed_simulations (st\<lparr>completed_simulations := completed_simulations st + 1\<rparr>)
             + length cs\<rparr>"
    using Cons.prems by (intro Cons.IH) auto
  then show ?case by (simp add: step)
qed

lemma fold_counters:
  "failed_simulations st \<le> failed_simulations (foldl (sweep_step k w s) st cs) \<and>
   (terminated st \<longrightarrow> terminated (foldl (sweep_step k w s) st cs))"
proof (induction cs arbitrary: st)
  case Nil
  then show ?case by simp
next
  case (Cons c cs)
  show ?case
    using Cons.IH [of "sweep_step k w s st c"] sweep_step_counters [of st k w s c]
    by auto
qed

lemma fold_done:
  "\<not> terminated (foldl (sweep_step k w s) st cs) \<Longrightarrow>
   failed_simulations (foldl (sweep_step k w s) st cs) = failed_simulations st \<Longrightarrow>
   c \<in> set cs \<Longrightarrow>
   already_completed (all_results (foldl (sweep_step k w s) st cs)) (k c)"
proof (induction cs arbitrary: st)
  case Nil
  then show ?case by simp
next
  case (Cons x cs)
  let ?st = "sweep_step k w s st x"
  have le1: "failed_simulations st \<le> failed_simulations ?st"
    using sweep_step_counters [of st k w s x] by simp
  have le2: "failed_simulations ?st \<le> failed_simulations (foldl (sweep_step k w s) ?st cs)"
    using fold_counters [of ?st k w s cs] by simp
  have same: "failed_simulations ?st = failed_simulations st"
    using le1 le2 Cons.prems(2) by simp
  have live: "\<not> terminated ?st"
    using fold_counters [of ?st k w s cs] Cons.prems(1) by auto
  show ?case
  proof (cases "c = x")
    case True
    have "already_completed (all_results ?st) (k x)"
      using live same by (rule sweep_step_done)
    then show ?thesis using True by (simp add: fold_completed)
  next
    case False
    then have "c \<in> set cs" using Cons.prems(3) by simp
    moreover have "\<not> terminated (foldl (sweep_step k w s) ?st cs)"
      using Cons.prems(1) by simp
    moreover have "failed_simulations (foldl (sweep_step k w s) ?st cs) = failed_simulations ?st"
      using Cons.prems(2) same by simp
    ultimately have "already_completed (all_results (foldl (sweep_step k w s) ?st cs)) (k c)"
      by (intro Cons.IH) auto
    then show ?thesis by simp
  qed
qed

text \<open>The tracked file holds the store, and a live sweep is in its start directory.\<close>

lemma sweep_step_file:
  assumes "load_results (intermediate_file st) = all_results st"
    and "\<not> terminated st \<Longrightarrow> cwd (process st) = s"
  shows "load_results (intermediate_file (sweep_step k w s st c))
           = all_results (sweep_step k w s st c) \<and>
         (\<not> terminated (sweep_step k w s st c) \<longrightarrow> cwd (process (sweep_step k w s st c)) = s)"
proof (cases rule: sweep_step_cases [where st = st and k = k and w = w and s = s and c = c])
  case stopped
  then show ?thesis using assms by simp
next
  case skipped
  then show ?thesis using assms by simp
next
  case (ran e cd dd da p r)
  have "cwd p = cwd (process st)" using run_simulation_Inr [OF ran(4)] by simp
  then have "cwd p = s" using assms(2) ran(2) by simp
  then show ?thesis using ran(5) by (simp add: write_intermediate_def load_results_def)
next
  case (interrupted e cd dd da p)
  then show ?thesis using assms(1) by (simp add: write_intermediate_def load_results_def)
next
  case (failed e cd dd da p err)
  have "cwd p = cwd (process st)"
    using failed(4,5) by (intro run_simulation_cwd_restored [OF failed(4)]) simp
  then show ?thesis using failed(6) assms by simp
qed

lemma fold_file:
  "load_results (intermediate_file st) = all_results st \<Longrightarrow>
   (\<not> terminated st \<longrightarrow> cwd (process st) = s) \<Longrightarrow>
   load_results (intermediate_file (foldl (sweep_step k w s) st cs))
     = all_results (foldl (sweep_step k w s) st cs)"
proof (induction cs arbitrary: st)
  case Nil
  then show ?case by simp
next
  case (Cons c cs)
  show ?case
    using sweep_step_file [of st s k w c] Cons.prems
    by (simp add: Cons.IH)
qed

lemma sweep_file: "load_results (intermediate_file (sweep k w s f cs)) = all_results (sweep k w s f cs)"
  unfolding sweep_def by (rule fold_file) (simp_all add: initial_state_def)

text \<open>
  Claim C8, amended. A configuration whose key is in the store with a \<open>dose_rem_per_hr\<close>
  field is skipped and counted as completed. The intermediate file a sweep leaves holds
  its store, and a second sweep started from that file runs none of the configurations
  present with a dose. When the first sweep ended with no failed configuration and was
  not interrupted, the second sweep runs nothing and ends with the same store, whatever
  the external calls would do. (A configuration whose run raised out of
  \<open>run_simulation\<close> is not in the store and is run again.)
\<close>

theorem resume_skips_completed:
  "(\<forall>st c. \<not> terminated st \<and> already_completed (all_results st) (key_of c) \<longrightarrow>
      sweep_step key_of world start_dir st c
        = st\<lparr>completed_simulations := completed_simulations st + 1\<rparr>) \<and>
   (let st1 = sweep key_of world start_dir f cs;
        st2 = sweep key_of world' start_dir (intermediate_file st1) cs
    in (\<forall>c \<in> set cs. already_completed (load_results f) (key_of c) \<longrightarrow> c \<notin> set (simulated st1)) \<and>
       load_results (intermediate_file st1) = all_results st1 \<and>
       (\<forall>c \<in> set (simulated st2). \<not> already_completed (all_results st1) (key_of c)) \<and>
       (failed_simulations st1 = 0 \<and> \<not> terminated st1 \<longrightarrow>
          simulated st2 = [] \<and> all_results st2 = all_results st1 \<and>
          final_results st2 = final_results st1 \<and>
          completed_simulations st2 = length cs \<and> failed_simulations st2 = 0))"
proof -
  define st1 where "st1 = sweep key_of world start_dir f cs"
  define st2 where "st2 = sweep key_of world' start_dir (intermediate_file st1) cs"
  have skip: "\<forall>st c. \<not> terminated st \<and> already_completed (all_results st) (key_of c) \<longrightarrow>
      sweep_step key_of world start_dir st c
        = st\<lparr>completed_simulations := completed_simulations st + 1\<rparr>"
    by (auto simp: sweep_step_def)
  have a: "\<forall>c \<in> set cs. already_completed (load_results f) (key_of c) \<longrightarrow> c \<notin> set (simulated st1)"
  proof (intro ballI impI notI)
    fix c
    assume "already_completed (load_results f) (key_of c)" "c \<in> set (simulated st1)"
    then show False
      using fold_simulated [of c key_of world start_dir "initial_state start_dir f" cs]
      by (simp add: st1_def sweep_def initial_state_def)
  qed
  have b: "load_results (intermediate_file st1) = all_results st1"
    unfolding st1_def by (rule sweep_file)
  have c: "\<forall>c \<in> set (simulated st2). \<not> already_completed (all_results st1) (key_of c)"
  proof
    fix c
    assume "c \<in> set (simulated st2)"
    then show "\<not> already_completed (all_results st1) (key_of c)"
      using fold_simulated [of c key_of world' start_dir
          "initial_state start_dir (intermediate_file st1)" cs] b
      by (simp add: st2_def sweep_def initial_state_def)
  qed
  have d: "failed_simulations st1 = 0 \<and> \<not> terminated st1 \<longrightarrow>
          simulated st2 = [] \<and> all_results st2 = all_results st1 \<and>
          final_results st2 = final_results st1 \<and>
          completed_simulations st2 = length cs \<and> failed_simulations st2 = 0"
  proof
    assume ok: "failed_simulations st1 = 0 \<and> \<not> terminated st1"
    have "\<forall>c \<in> set cs. already_completed (all_results st1) (key_of c)"
    proof
      fix c
      assume "c \<in> set cs"
      then show "already_completed (all_results st1) (key_of c)"
        using ok fold_done [of key_of world start_dir "initial_state start_dir f" cs c]
        by (simp add: st1_def sweep_def initial_state_def)
    qed
    then have "\<forall>c \<in> set cs. already_completed
        (all_results (initial_state start_dir (intermediate_file st1))) (key_of c)"
      using b by (simp add: initial_state_def)
    moreover have "\<not> terminated (initial_state start_dir (intermediate_file st1))"
      by (simp add: initial_state_def)
    ultimately have "st2 = (initial_state start_dir (intermediate_file st1))
        \<lparr>completed_simulations :=
           completed_simulations (initial_state start_dir (intermediate_file st1)) + length cs\<rparr>"
      unfolding st2_def sweep_def by (intro fold_all_done) auto
    then show "simulated st2 = [] \<and> all_results st2 = all_results st1 \<and>
          final_results st2 = final_results st1 \<and>
          completed_simulations st2 = length cs \<and> failed_simulations st2 = 0"
      using b ok by (simp add: initial_state_def final_results_def)
  qed
  show ?thesis
    unfolding Let_def using skip a b c d by (simp only: st1_def st2_def simp_thms)
qed

lemma run_quiet_accept:
  assumes "\<not> (sum_list sp < 1 / 10^6 \<or> sum_list sp * get_flux_to_dose_factor e < 1 / 10^10)"
  shows "run_simulation rid (quiet mesh sp) e cd dd da p
     = (p\<lparr>events := events p @ [Engine_run, Visualisation]\<rparr>,
        Inr (full_result e cd dd da (sum_list sp) (sum_list sp * get_flux_to_dose_factor e) sp mesh))"
  using assms
  by (simp add: run_simulation_def try_body_def quiet_def log_event_def save_and_plot_def Let_def)

lemma run_quiet_standard:
  "run_simulation rid (quiet [ [0] ] [1]) 1 cd dd da p
     = (p\<lparr>events := events p @ [Engine_run, Visualisation]\<rparr>,
        Inr (full_result 1 cd dd da 1 (1.98 / 10^6) [1] [ [0] ]))"
  using run_quiet_accept [of "[1]" 1 rid "[ [0] ]" cd dd da p]
  by (simp add: get_flux_to_dose_factor_1)

text \<open>The theorem for a sweep of one configuration in which every call returns.\<close>

theorem resume_skips_completed_witness:
  "(let st1 = sweep (\<lambda>c. ''E1.0_D0.5_dist30_ang0'') (\<lambda>c. quiet [ [0] ] [1]) ''/home/user''
                Missing [(1, 0.5, 30, 0)];
        st2 = sweep (\<lambda>c. ''E1.0_D0.5_dist30_ang0'') (\<lambda>c. quiet [ [0] ] [1]) ''/home/user''
                (intermediate_file st1) [(1, 0.5, 30, 0)]
    in failed_simulations st1 = 0 \<and> \<not> terminated st1 \<and>
       simulated st1 = [(1, 0.5, 30, 0)] \<and>
       already_completed (all_results st1) ''E1.0_D0.5_dist30_ang0'' \<and>
       simulated st2 = [] \<and> all_results st2 = all_results st1 \<and>
       final_results st2 = final_results st1 \<and> completed_simulations st2 = 1)"
proof -
  define st1 where "st1 = sweep (\<lambda>c. ''E1.0_D0.5_dist30_ang0'') (\<lambda>c. quiet [ [0] ] [1]) ''/home/user''
                Missing [(1, 0.5, 30, 0)]"
  have e: "failed_simulations st1 = 0" "\<not> terminated st1" "simulated st1 = [(1, 0.5, 30, 0)]"
     "already_completed (all_results st1) ''E1.0_D0.5_dist30_ang0''"
    by (simp_all add: st1_def sweep_def initial_state_def sweep_step_def load_results_def
        already_completed_def run_quiet_standard write_intermediate_def Let_def full_result_def)
  show ?thesis
    using e resume_skips_completed [where key_of = "\<lambda>c. ''E1.0_D0.5_dist30_ang0''"
        and world = "\<lambda>c. quiet [ [0] ] [1]" and world' = "\<lambda>c. quiet [ [0] ] [1]"
        and start_dir = "''/home/user''" and f = Missing and cs = "[(1, 0.5, 30, 0)]"]
    by (simp add: Let_def st1_def)
qed

text \<open>
  Claim C8 as stated fails: in a first sweep of two configurations the second one fails
  because \<open>create_materials\<close> raises; the intermediate file holds the store. In the second
  sweep the first configuration is skipped, the second one is run again, now returns,
  and the final store has an entry more.
\<close>

theorem resume_not_identical_counterexample:
  "(let key_of = (\<lambda>c. if c = (1, 0.5, 30, 0) then ''E1.0_D0.5_dist30_ang0''
                       else ''E1.0_D0.5_dist30_ang15'');
        world = (\<lambda>c. if c = (1, 0.5, 30, 0) then quiet [ [0] ] [1]
                      else (quiet [ [0] ] [1])\<lparr>create_materials_raises := Some OtherException\<rparr>);
        cs = [(1, 0.5, 30, 0), (1, 0.5, 30, 15)];
        st1 = sweep key_of world ''/home/user'' Missing cs;
        st2 = sweep key_of (\<lambda>c. quiet [ [0] ] [1]) ''/home/user'' (intermediate_file st1) cs
    in intermediate_file st1 = Contents (all_results st1) \<and>
       simulated st1 = cs \<and> failed_simulations st1 = 1 \<and>
       all_results st1 ''E1.0_D0.5_dist30_ang15'' = None \<and>
       simulated st2 = [(1, 0.5, 30, 15)] \<and>
       all_results st2 ''E1.0_D0.5_dist30_ang15''
         = Some (full_result 1 0.5 30 15 1 (1.98 / 10^6) [1] [ [0] ]) \<and>
       final_results st2 \<noteq> final_results st1)"
proof -
  define key_of :: "config \<Rightarrow> string" where
    "key_of = (\<lambda>c. if c = (1, 0.5, 30, 0) then ''E1.0_D0.5_dist30_ang0''
                       else ''E1.0_D0.5_dist30_ang15'')"
  define world :: "config \<Rightarrow> collaborators" where
    "world = (\<lambda>c. if c = (1, 0.5, 30, 0) then quiet [ [0] ] [1]
                      else (quiet [ [0] ] [1])\<lparr>create_materials_raises := Some OtherException\<rparr>)"
  define r0 where "r0 = full_result 1 0.5 30 0 1 (1.98 / 10^6) [1] [ [0] ]"
  define r15 where "r15 = full_result 1 0.5 30 15 1 (1.98 / 10^6) [1] [ [0] ]"
  define st1 where "st1 = sweep key_of world ''/home/user'' Missing [(1, 0.5, 30, 0), (1, 0.5, 30, 15)]"
  define st2 where "st2 = sweep key_of (\<lambda>c. quiet [ [0] ] [1]) ''/home/user'' (intermediate_file st1)
      [(1, 0.5, 30, 0), (1, 0.5, 30, 15)]"
  have d0: "r0 ''dose_rem_per_hr'' \<noteq> None" by (simp add: r0_def full_result_def)
  have fail: "run_simulation rid ((quiet [ [0] ] [1])\<lparr>create_materials_raises := Some OtherException\<rparr>)
      e cd dd da p = (p, Inl OtherException)" for rid e cd dd da p
    by (simp add: run_simulation_def quiet_def)
  have s1: "st1 = \<lparr>all_results = [''E1.0_D0.5_dist30_ang0'' \<mapsto> r0],
       intermediate_file = Contents [''E1.0_D0.5_dist30_ang0'' \<mapsto> r0],
       completed_simulations = 1, failed_simulations = 1,
       simulated = [(1, 0.5, 30, 0), (1, 0.5, 30, 15)],
       process = \<lparr>cwd = ''/home/user'', events = [Engine_run, Visualisation]\<rparr>,
       terminated = False\<rparr>"
    by (simp add: st1_def sweep_def initial_state_def sweep_step_def load_results_def
        already_completed_def run_quiet_standard write_intermediate_def Let_def key_of_def world_def
        r0_def fail)
  have s2: "all_results st2 = [''E1.0_D0.5_dist30_ang0'' \<mapsto> r0, ''E1.0_D0.5_dist30_ang15'' \<mapsto> r15]"
    "simulated st2 = [(1, 0.5, 30, 15)]" "\<not> terminated st2"
    using d0
    by (simp_all add: st2_def s1 sweep_def initial_state_def sweep_step_def load_results_def
        already_completed_def run_quiet_standard write_intermediate_def Let_def key_of_def r15_def)
  have ne: "final_results st2 \<noteq> final_results st1"
  proof
    assume "final_results st2 = final_results st1"
    then have "all_results st2 = all_results st1"
      using s2(3) by (simp add: final_results_def s1)
    then have "all_results st2 ''E1.0_D0.5_dist30_ang15'' = all_results st1 ''E1.0_D0.5_dist30_ang15''"
      by simp
    then show False by (simp add: s1 s2)
  qed
  have "intermediate_file st1 = Contents (all_results st1) \<and>
       simulated st1 = [(1, 0.5, 30, 0), (1, 0.5, 30, 15)] \<and> failed_simulations st1 = 1 \<and>
       all_results st1 ''E1.0_D0.5_dist30_ang15'' = None \<and>
       simulated st2 = [(1, 0.5, 30, 15)] \<and>
       all_results st2 ''E1.0_D0.5_dist30_ang15'' = Some r15 \<and>
       final_results st2 \<noteq> final_results st1"
    using ne by (simp add: s1 s2)
  then show ?thesis
    unfolding Let_def st2_def st1_def key_of_def world_def r15_def .
qed










end
